theory Spec2Isabelle
  imports Main "HOL-Library.AList" "HOL-Library.Char_ord" "HOL-Library.List_Lexorder"
begin

section \<open>Python values\<close>

text \<open>
  The constructor arguments \<^verbatim>\<open>catalog\<close>, \<^verbatim>\<open>parameters\<close>, \<^verbatim>\<open>credentials\<close> and \<^verbatim>\<open>logging\<close>
  of \<^verbatim>\<open>ConfigLoader.__init__\<close> are untyped and default to \<^verbatim>\<open>None\<close>; the values of a
  parsed configuration file are arbitrary. Both are modelled by one type of Python
  values. A dictionary is an association list in insertion order.
\<close>

datatype pyobj =
    PyNone
  | PyInt int
  | PyStr string
  | PyDict "(string \<times> pyobj) list"

type_synonym config = "(string \<times> pyobj) list"

text \<open>Python's truth value testing: \<^verbatim>\<open>None\<close>, \<^verbatim>\<open>0\<close>, \<^verbatim>\<open>''\<close> and \<^verbatim>\<open>{}\<close> are false.\<close>

fun truthy :: "pyobj \<Rightarrow> bool" where
  "truthy PyNone = False"
| "truthy (PyInt n) = (n \<noteq> 0)"
| "truthy (PyStr s) = (s \<noteq> [])"
| "truthy (PyDict d) = (d \<noteq> [])"

text \<open>Python's \<^verbatim>\<open>a or b\<close>: the first operand when it is true, the second otherwise.\<close>

definition py_or :: "pyobj \<Rightarrow> pyobj \<Rightarrow> pyobj" where
  "py_or a b = (if truthy a then a else b)"

section \<open>Paths\<close>

text \<open>
  \<^verbatim>\<open>str(Path(self.conf_source) / self.base_env)\<close> goes through the standard library's
  \<^verbatim>\<open>pathlib\<close>. The model is the POSIX flavour: a path is a root (\<^verbatim>\<open>''\<close>, \<^verbatim>\<open>'/'\<close> or
  \<^verbatim>\<open>'//'\<close>) and the list of its components, with empty components and \<^verbatim>\<open>'.'\<close> dropped.
\<close>

definition sep :: char where
  "sep = CHR ''/''"

text \<open>Python's \<^verbatim>\<open>str.split(c)\<close>.\<close>

fun split :: "char \<Rightarrow> string \<Rightarrow> string list" where
  "split c [] = [[]]"
| "split c (x # xs) =
     (if x = c then [] # split c xs
      else (case split c xs of [] \<Rightarrow> [[x]] | y # ys \<Rightarrow> (x # y) # ys))"

text \<open>Python's \<^verbatim>\<open>'/'.join(parts)\<close>.\<close>

fun sep_join :: "string list \<Rightarrow> string" where
  "sep_join [] = []"
| "sep_join [x] = x"
| "sep_join (x # y # ys) = x @ [sep] @ sep_join (y # ys)"

type_synonym posix_path = "string \<times> string list"

text \<open>
  \<^verbatim>\<open>_PosixFlavour.splitroot\<close>: exactly two leading slashes are kept as the root
  \<^verbatim>\<open>'//'\<close>, any other number of leading slashes is the root \<^verbatim>\<open>'/'\<close>.
\<close>

definition splitroot :: "string \<Rightarrow> string \<times> string" where
  "splitroot part =
     (if part \<noteq> [] \<and> hd part = sep then
        (let stripped_part = dropWhile (\<lambda>c. c = sep) part in
         if length part - length stripped_part = 2 then ([sep, sep], stripped_part)
         else ([sep], stripped_part))
      else ([], part))"

text \<open>\<^verbatim>\<open>_Flavour.parse_parts\<close> on a single string.\<close>

definition parse_parts :: "string \<Rightarrow> posix_path" where
  "parse_parts part =
     (case splitroot part of
        (root, rel) \<Rightarrow> (root, filter (\<lambda>x. x \<noteq> [] \<and> x \<noteq> ''.'') (split sep rel)))"

text \<open>
  \<^verbatim>\<open>PurePath.__truediv__\<close> with a string on the right
  (\<^verbatim>\<open>_Flavour.join_parsed_parts\<close>): an anchored right operand replaces the left one.
\<close>

definition truediv :: "posix_path \<Rightarrow> string \<Rightarrow> posix_path" where
  "truediv p key =
     (case parse_parts key of
        (root2, parts2) \<Rightarrow>
          if root2 \<noteq> [] then (root2, parts2) else (fst p, snd p @ parts2))"

text \<open>\<^verbatim>\<open>PurePath.__str__\<close>: the empty relative path prints as \<^verbatim>\<open>'.'\<close>.\<close>

definition path_str :: "posix_path \<Rightarrow> string" where
  "path_str p =
     (if fst p \<noteq> [] then fst p @ sep_join (snd p)
      else if sep_join (snd p) \<noteq> [] then sep_join (snd p)
      else ''.'')"

section \<open>Errors and warnings\<close>

text \<open>
  The ways discovery can fail. \<^verbatim>\<open>MissingConfigException\<close> names the directories and
  the patterns searched. \<^verbatim>\<open>DuplicateKeyConflict\<close> (the \<^verbatim>\<open>ValueError\<close> of the class
  docstring) names the file at which the conflict is found and, for each file loaded
  before it that shares keys with it, that file and the shared keys. \<^verbatim>\<open>ParseError\<close>
  names the offending file. \<^verbatim>\<open>TypeError\<close> is Python's error for a pattern that is not a
  string, with the offending value.
\<close>

datatype error =
    MissingConfigException "string list" "pyobj list"
  | DuplicateKeyConflict string "(string \<times> string list) list"
  | ParseError string
  | TypeError pyobj

text \<open>
  The warning of \<^verbatim>\<open>get_essential_config\<close>; its text ends with \<^verbatim>\<open>str(exc)\<close>, so it
  carries the exception. \<open>SkippedDuplicate\<close> is a warning about a configuration path
  that the deduplication skips, for a deduplication that reports what it skips.
\<close>

datatype warning = ConfigNotFound error | SkippedDuplicate string

section \<open>The parts of the repository outside \<^verbatim>\<open>config.py\<close>\<close>

text \<open>
  Modelled from the spec: \<^verbatim>\<open>kedro.config.common._remove_duplicates\<close>, which is imported
  by \<^verbatim>\<open>config.py\<close> and not part of it. The spec: the sequence is "deduplicated
  preserving first occurrence", "an ordered-set structure (sequence + membership set)".
\<close>

definition remove_duplicates :: "string list \<Rightarrow> string list" where
  "remove_duplicates items =
     foldl (\<lambda>unique item. if item \<in> set unique then unique else unique @ [item]) [] items"

text \<open>
  Modelled from the spec: the filesystem and the format parsers, external collaborators
  "specified only at their interface". \<open>fs_glob fs d p\<close> is the expansion of the glob
  pattern \<open>p\<close> rooted at the directory \<open>d\<close> (the matching file paths);
  \<open>fs_parse fs f\<close> is the parsed content of the file \<open>f\<close>, or \<open>None\<close> for a parse
  failure.
\<close>

record filesystem =
  fs_glob :: "string \<Rightarrow> string \<Rightarrow> string list"
  fs_parse :: "string \<Rightarrow> config option"

text \<open>
  Modelled from the spec: the supported set "{yaml, yml, json, ini, pickle/pkl, xml,
  properties}" of extensions (section 4.2b, step 1a; the missing
  \<^verbatim>\<open>kedro.config.common\<close>).
\<close>

definition supported_extensions :: "string list" where
  "supported_extensions =
     [''yaml'', ''yml'', ''json'', ''ini'', ''pickle'', ''pkl'', ''xml'', ''properties'']"

text \<open>
  Modelled from the spec: the "extension" of a matched file path (step 1a of the missing
  \<^verbatim>\<open>kedro.config.common._get_config_from_patterns\<close>), the text after the last dot of
  the file name.
\<close>

definition file_extension :: "string \<Rightarrow> string" where
  "file_extension p =
     (let name = last (split sep p)
      in if CHR ''.'' \<in> set name then last (split (CHR ''.'') name) else [])"

text \<open>
  Modelled from the spec: step 1a of the discovery-and-merge algorithm of the missing
  \<^verbatim>\<open>kedro.config.common._get_config_from_patterns\<close>, for one pattern: "Expand each
  pattern against the filesystem rooted at that ConfigPath, collecting all matching
  file paths whose extension is one of the supported set".
\<close>

definition expand :: "filesystem \<Rightarrow> string \<Rightarrow> string \<Rightarrow> string list" where
  "expand fs conf_path pattern =
     filter (\<lambda>p. file_extension p \<in> set supported_extensions) (fs_glob fs conf_path pattern)"

text \<open>
  Modelled from the spec: step 1a over the list of patterns, in order. A Pattern is "a
  glob-style string ... matched against file paths relative to a ConfigPath"; a value
  that is not a string cannot be joined to the path of the directory, and the expansion
  stops at the first such value with Python's \<^verbatim>\<open>TypeError\<close>, before any file is read.
\<close>

fun path_lookup :: "filesystem \<Rightarrow> string \<Rightarrow> pyobj list \<Rightarrow> error + string list" where
  "path_lookup fs conf_path [] = Inr []"
| "path_lookup fs conf_path (PyStr s # patterns) =
     (case path_lookup fs conf_path patterns of
        Inl e \<Rightarrow> Inl e
      | Inr files \<Rightarrow> Inr (expand fs conf_path s @ files))"
| "path_lookup fs conf_path (p # patterns) = Inl (TypeError p)"

text \<open>
  The order in which the files of a directory are loaded: sorted as paths, that is,
  component by component.
\<close>

definition path_key :: "string \<Rightarrow> string list" where
  "path_key p = (case parse_parts p of (root, parts) \<Rightarrow> root # parts)"

text \<open>
  Modelled from the spec: "collecting all matching file paths" of step 1a for one
  ConfigPath. A file matched by several patterns is collected once; the files are
  listed in sorted order.
\<close>

definition lookup_config_filepaths :: "filesystem \<Rightarrow> string \<Rightarrow> pyobj list \<Rightarrow> error + string list" where
  "lookup_config_filepaths fs conf_path patterns =
     (case path_lookup fs conf_path patterns of
        Inl e \<Rightarrow> Inl e
      | Inr files \<Rightarrow> Inr (sort_key path_key (remdups files)))"

text \<open>The top-level keys of a mapping.\<close>

definition keys :: "config \<Rightarrow> string list" where
  "keys c = map fst c"

text \<open>
  Python's \<^verbatim>\<open>dict.update\<close>, the "overlay" of the spec: a key that is there keeps its
  place and takes the new value, a new key is appended.
\<close>

definition dict_update :: "config \<Rightarrow> config \<Rightarrow> config" where
  "dict_update acc new = fold (\<lambda>kv a. AList.update (fst kv) (snd kv) a) new acc"

text \<open>
  Modelled from the spec: the check of step 1c, "if any top-level key is produced by
  more than one file within this same ConfigPath". \<open>seen\<close> lists the files of the
  directory loaded so far with their keys; the result lists those that share keys with
  the mapping \<open>cfg\<close> of the file being loaded, each with the shared keys, sorted.
\<close>

definition duplicates :: "(string \<times> string list) list \<Rightarrow> config \<Rightarrow> (string \<times> string list) list" where
  "duplicates seen cfg =
     filter (\<lambda>gk. snd gk \<noteq> [])
       (map (\<lambda>gk. (fst gk, sort (remdups (filter (\<lambda>k. k \<in> set (snd gk)) (keys cfg))))) seen)"

text \<open>
  Modelled from the spec: steps 1b and 1c for the files of one ConfigPath, file by
  file: "Parse every matched file via the format-specific parser keyed by extension; a
  parse failure is a fatal error identifying the offending file", "Merge all parsed
  mappings from this ConfigPath into one mapping; if any top-level key is produced by
  more than one file within this same ConfigPath, fail immediately with a duplicate-key
  error identifying the key and the conflicting file paths." Each file is parsed,
  checked against the files loaded before it and merged, before the next one is read.
\<close>

fun load_configs ::
  "filesystem \<Rightarrow> string list \<Rightarrow> (string \<times> string list) list \<Rightarrow> config \<Rightarrow> error + config"
where
  "load_configs fs [] seen aggregate_config = Inr aggregate_config"
| "load_configs fs (f # files) seen aggregate_config =
     (case fs_parse fs f of
        None \<Rightarrow> Inl (ParseError f)
      | Some cfg \<Rightarrow>
          if duplicates seen cfg \<noteq> [] then Inl (DuplicateKeyConflict f (duplicates seen cfg))
          else load_configs fs files (seen @ [(f, keys cfg)]) (dict_update aggregate_config cfg))"

text \<open>
  Modelled from the spec: steps 1a to 1c of the missing
  \<^verbatim>\<open>_get_config_from_patterns\<close> for one ConfigPath, giving its MergedDirectoryConfig.
\<close>

definition load_directory :: "filesystem \<Rightarrow> string \<Rightarrow> pyobj list \<Rightarrow> error + config" where
  "load_directory fs conf_path patterns =
     (case lookup_config_filepaths fs conf_path patterns of
        Inl e \<Rightarrow> Inl e
      | Inr files \<Rightarrow> load_configs fs files [] [])"

text \<open>
  Modelled from the spec: steps 1 and 2, "For each ConfigPath, in resolution order",
  "start from an empty mapping, and for each ConfigPath's merged mapping (in order),
  overlay its keys onto the accumulator, replacing any existing value for the same
  key." The second accumulator collects the files discovered so far.
\<close>

fun aggregate ::
  "filesystem \<Rightarrow> pyobj list \<Rightarrow> string list \<Rightarrow> config \<Rightarrow> string list \<Rightarrow> error + (config \<times> string list)"
where
  "aggregate fs patterns [] config processed_files = Inr (config, processed_files)"
| "aggregate fs patterns (conf_path # rest) config processed_files =
     (case lookup_config_filepaths fs conf_path patterns of
        Inl e \<Rightarrow> Inl e
      | Inr files \<Rightarrow>
          (case load_configs fs files [] [] of
             Inl e \<Rightarrow> Inl e
           | Inr new_conf \<Rightarrow>
               aggregate fs patterns rest (dict_update config new_conf)
                 (processed_files @ files)))"

text \<open>
  Modelled from the spec: the discovery-and-merge algorithm (section 4.2b) of the
  missing \<^verbatim>\<open>kedro.config.common._get_config_from_patterns\<close>, with step 3: "If, after
  processing all ConfigPaths, zero files were discovered across all of them, fail with
  a "missing configuration" condition naming the patterns and directories searched."
\<close>

definition get_config_from_patterns ::
  "filesystem \<Rightarrow> string list \<Rightarrow> pyobj list \<Rightarrow> error + config"
where
  "get_config_from_patterns fs conf_paths patterns =
     (case aggregate fs patterns conf_paths [] [] of
        Inl e \<Rightarrow> Inl e
      | Inr (config, processed_files) \<Rightarrow>
          if processed_files = [] then Inl (MissingConfigException conf_paths patterns)
          else Inr config)"

section \<open>The instance\<close>

text \<open>
  The attributes of a \<^verbatim>\<open>ConfigLoader\<close>. \<^verbatim>\<open>env\<close> is declared \<^verbatim>\<open>env: str = None\<close>.
  \<^verbatim>\<open>mapping\<close> is the attribute \<^verbatim>\<open>get\<close> reads; it is set by the base class.
\<close>

record ConfigLoader =
  base_env :: string
  default_run_env :: string
  env :: "string option"
  conf_source :: string
  runtime_params :: "config option"
  mapping :: "(string \<times> config) list"

text \<open>
  Modelled from the spec: \<^verbatim>\<open>AbstractConfigLoader.__init__\<close>, imported from
  \<^verbatim>\<open>kedro.config\<close> and not part of \<^verbatim>\<open>config.py\<close>. The spec: "an internal, pre-resolved
  mapping of known section names to their configs (populated at construction for
  "catalog", "parameters", "credentials", "logging")". The other three keyword
  arguments of the call in \<^verbatim>\<open>ConfigLoader.__init__\<close> are kept as attributes ("the
  immutable construction-time configuration").
\<close>

definition AbstractConfigLoader_init ::
  "ConfigLoader \<Rightarrow> config \<Rightarrow> config \<Rightarrow> config \<Rightarrow> config \<Rightarrow> string \<Rightarrow> string option
     \<Rightarrow> config option \<Rightarrow> ConfigLoader"
where
  "AbstractConfigLoader_init self catalog parameters credentials logging conf_source' env'
       runtime_params' =
     self\<lparr>mapping := [(''catalog'', catalog), (''parameters'', parameters),
                      (''credentials'', credentials), (''logging'', logging)],
          conf_source := conf_source', env := env', runtime_params := runtime_params'\<rparr>"

text \<open>\<^verbatim>\<open>self.env or self.default_run_env\<close>: \<^verbatim>\<open>None\<close> and \<^verbatim>\<open>''\<close> are false.\<close>

definition run_env :: "ConfigLoader \<Rightarrow> string" where
  "run_env self =
     (case env self of
        None \<Rightarrow> default_run_env self
      | Some e \<Rightarrow> if e \<noteq> [] then e else default_run_env self)"

text \<open>\<^verbatim>\<open>ConfigLoader._build_conf_paths\<close>.\<close>

definition build_conf_paths :: "ConfigLoader \<Rightarrow> string list" where
  "build_conf_paths self =
     [path_str (truediv (parse_parts (conf_source self)) (base_env self)),
      path_str (truediv (parse_parts (conf_source self)) (run_env self))]"

text \<open>The property \<^verbatim>\<open>ConfigLoader.conf_paths\<close>.\<close>

definition conf_paths :: "ConfigLoader \<Rightarrow> string list" where
  "conf_paths self = remove_duplicates (build_conf_paths self)"

section \<open>Retrieval\<close>

text \<open>
  \<^verbatim>\<open>ConfigLoader.get_essential_config\<close>. The right-hand side of the assignment to
  \<^verbatim>\<open>patterns\<close> is a tuple of three expressions, the first of which is
  \<^verbatim>\<open>provided_patterns or f"{config_type}*"\<close>. The warnings emitted so far are passed in
  and returned.
\<close>

definition get_essential_config ::
  "filesystem \<Rightarrow> ConfigLoader \<Rightarrow> string \<Rightarrow> pyobj \<Rightarrow> warning list
     \<Rightarrow> (error + config) \<times> warning list"
where
  "get_essential_config fs self config_type provided_patterns warnings =
     (let patterns = [py_or provided_patterns (PyStr (config_type @ ''*'')),
                      PyStr (config_type @ ''*/**''),
                      PyStr (''**/'' @ config_type @ ''*'')]
      in case get_config_from_patterns fs (conf_paths self) patterns of
           Inl (MissingConfigException ds ps) \<Rightarrow>
             (Inr [], warnings @ [ConfigNotFound (MissingConfigException ds ps)])
         | Inl exc \<Rightarrow> (Inl exc, warnings)
         | Inr config \<Rightarrow> (Inr config, warnings))"

text \<open>
  \<^verbatim>\<open>ConfigLoader.get\<close>. \<^verbatim>\<open>value or ...\<close> takes the right operand when \<^verbatim>\<open>value\<close> is
  \<^verbatim>\<open>None\<close> or an empty dictionary.
\<close>

definition get :: "filesystem \<Rightarrow> ConfigLoader \<Rightarrow> string list \<Rightarrow> error + config" where
  "get fs self patterns =
     (let value = (if length patterns = 1 then map_of (mapping self) (patterns ! 0) else None)
      in case value of
           Some v \<Rightarrow>
             if v \<noteq> [] then Inr v
             else get_config_from_patterns fs (conf_paths self) (map PyStr patterns)
         | None \<Rightarrow> get_config_from_patterns fs (conf_paths self) (map PyStr patterns))"

text \<open>
  \<^verbatim>\<open>ConfigLoader.__init__\<close>. The four attributes are set first, then the four essential
  sections are resolved in order (an exception of one ends the construction), then the
  base class is initialised with the results. Before that, the instance has neither
  \<^verbatim>\<open>mapping\<close> nor \<^verbatim>\<open>runtime_params\<close>; \<^verbatim>\<open>get_essential_config\<close> reads neither.
\<close>

definition ConfigLoader_init ::
  "filesystem \<Rightarrow> string \<Rightarrow> pyobj \<Rightarrow> pyobj \<Rightarrow> pyobj \<Rightarrow> pyobj \<Rightarrow> string option \<Rightarrow> config option
     \<Rightarrow> string \<Rightarrow> string \<Rightarrow> warning list \<Rightarrow> (error + ConfigLoader) \<times> warning list"
where
  "ConfigLoader_init fs conf_source' catalog parameters credentials logging env' runtime_params'
       base_env' default_run_env' warnings =
     (let self = \<lparr>base_env = base_env', default_run_env = default_run_env', env = env',
                  conf_source = conf_source', runtime_params = None, mapping = []\<rparr>
      in case get_essential_config fs self ''catalog'' catalog warnings of
           (Inl e, w1) \<Rightarrow> (Inl e, w1)
         | (Inr catalog', w1) \<Rightarrow>
      (case get_essential_config fs self ''parameters'' parameters w1 of
           (Inl e, w2) \<Rightarrow> (Inl e, w2)
         | (Inr parameters', w2) \<Rightarrow>
      (case get_essential_config fs self ''credentials'' credentials w2 of
           (Inl e, w3) \<Rightarrow> (Inl e, w3)
         | (Inr credentials', w3) \<Rightarrow>
      (case get_essential_config fs self ''logging'' logging w3 of
           (Inl e, w4) \<Rightarrow> (Inl e, w4)
         | (Inr logging', w4) \<Rightarrow>
             (Inr (AbstractConfigLoader_init self catalog' parameters' credentials' logging'
                     conf_source' env' runtime_params'), w4)))))"

section \<open>Successive calls\<close>





section \<open>Vocabulary of the statements\<close>

text \<open>The call \<open>get fs self patterns\<close> returns a cached section without discovery.\<close>

definition fast_path :: "ConfigLoader \<Rightarrow> string list \<Rightarrow> bool" where
  "fast_path self patterns =
     (length patterns = 1 \<and>
      (case map_of (mapping self) (patterns ! 0) of None \<Rightarrow> False | Some v \<Rightarrow> v \<noteq> []))"

text \<open>No file matches any of the patterns in any of the directories.\<close>

definition no_files :: "filesystem \<Rightarrow> string list \<Rightarrow> pyobj list \<Rightarrow> bool" where
  "no_files fs paths patterns =
     list_all (\<lambda>d. lookup_config_filepaths fs d patterns = Inr []) paths"

text \<open>The error is the missing-configuration error.\<close>

fun is_missing :: "error \<Rightarrow> bool" where
  "is_missing (MissingConfigException ds ps) = True"
| "is_missing (DuplicateKeyConflict f ds) = False"
| "is_missing (ParseError f) = False"
| "is_missing (TypeError p) = False"



section \<open>Example filesystems\<close>

text \<open>
  A small glob for the examples: \<^verbatim>\<open>*\<close> matches any run of characters inside a path
  segment; a segment \<^verbatim>\<open>**\<close> matches any number of directories when it is followed by
  other segments, and every file below when it is the last one.
\<close>

fun wildcard :: "string \<Rightarrow> string \<Rightarrow> bool" where
  "wildcard [] [] = True"
| "wildcard [] (c # s) = False"
| "wildcard (p # ps) [] = (p = CHR ''*'' \<and> wildcard ps [])"
| "wildcard (p # ps) (c # s) =
     (if p = CHR ''*'' then wildcard ps (c # s) \<or> wildcard (p # ps) s
      else p = c \<and> wildcard ps s)"

fun glob_segments :: "string list \<Rightarrow> string list \<Rightarrow> bool" where
  "glob_segments [] [] = True"
| "glob_segments [] (s # ss) = False"
| "glob_segments (p # ps) [] = False"
| "glob_segments (p # ps) (s # ss) =
     (if p = ''**'' then
        (if ps = [] then True
         else glob_segments ps (s # ss) \<or> (ss \<noteq> [] \<and> glob_segments (p # ps) ss))
      else wildcard p s \<and> glob_segments ps ss)"

text \<open>
  A filesystem from a list of files: the directory the file is under, its path
  relative to it, and its parsed content (\<open>None\<close> when it does not parse).
\<close>

definition mk_filesystem :: "(string \<times> string \<times> config option) list \<Rightarrow> filesystem" where
  "mk_filesystem files =
     \<lparr>fs_glob = (\<lambda>d pattern.
          map (\<lambda>f. fst f @ [sep] @ fst (snd f))
            (filter (\<lambda>f. fst f = d \<and> glob_segments (split sep pattern) (split sep (fst (snd f))))
               files)),
      fs_parse = (\<lambda>path.
          case map_of (map (\<lambda>f. (fst f @ [sep] @ fst (snd f), snd (snd f))) files) path of
            None \<Rightarrow> None
          | Some c \<Rightarrow> c)\<rparr>"

text \<open>The scenario of the spec's section 8.\<close>

definition scenario_fs :: filesystem where
  "scenario_fs = mk_filesystem
     [(''/proj/conf/base'', ''catalog.yml'', Some [(''a'', PyInt 1), (''b'', PyInt 2)]),
      (''/proj/conf/local'', ''catalog.yml'', Some [(''b'', PyInt 3), (''c'', PyInt 4)])]"

text \<open>A project without any configuration file.\<close>

definition empty_fs :: filesystem where
  "empty_fs = mk_filesystem []"



text \<open>A credentials file that does not parse.\<close>

definition unparsable_fs :: filesystem where
  "unparsable_fs = mk_filesystem [(''/proj/conf/base'', ''credentials.yml'', None)]"

text \<open>
  The instance that \<^verbatim>\<open>ConfigLoader("/proj/conf", env="local")\<close> builds on the scenario, and
  the one that \<^verbatim>\<open>ConfigLoader("/proj/conf")\<close> builds on the project without files.
\<close>

definition scenario_loader :: ConfigLoader where
  "scenario_loader =
     \<lparr>base_env = ''base'', default_run_env = ''local'', env = Some ''local'',
      conf_source = ''/proj/conf'', runtime_params = None,
      mapping = [(''catalog'', [(''a'', PyInt 1), (''b'', PyInt 3), (''c'', PyInt 4)]),
                 (''parameters'', []), (''credentials'', []), (''logging'', [])]\<rparr>"

definition empty_loader :: ConfigLoader where
  "empty_loader =
     \<lparr>base_env = ''base'', default_run_env = ''local'', env = None,
      conf_source = ''/proj/conf'', runtime_params = None,
      mapping = [(''catalog'', []), (''parameters'', []), (''credentials'', []),
                 (''logging'', [])]\<rparr>"

text \<open>The instance of \<^verbatim>\<open>ConfigLoader("/proj/conf", env="base")\<close> on the project without files.\<close>

definition base_only_loader :: ConfigLoader where
  "base_only_loader = empty_loader\<lparr>env := Some ''base''\<rparr>"


section \<open>Properties of the deduplication\<close>

lemma foldl_unique_set:
  "set (foldl (\<lambda>unique item. if item \<in> set unique then unique else unique @ [item]) acc xs)
     = set acc \<union> set xs"
  by (induction xs arbitrary: acc) auto

lemma foldl_unique_distinct:
  "distinct acc \<Longrightarrow>
   distinct (foldl (\<lambda>unique item. if item \<in> set unique then unique else unique @ [item]) acc xs)"
  by (induction xs arbitrary: acc) auto

lemma set_remove_duplicates: "set (remove_duplicates xs) = set xs"
  by (simp add: remove_duplicates_def foldl_unique_set)

lemma distinct_remove_duplicates: "distinct (remove_duplicates xs)"
  by (simp add: remove_duplicates_def foldl_unique_distinct)

lemma remove_duplicates_pair: "remove_duplicates [a, b] = (if a = b then [a] else [a, b])"
  by (simp add: remove_duplicates_def)

section \<open>Properties of merging\<close>

lemma map_of_dict_update: "map_of (dict_update acc new) = map_of acc ++ map_of (rev new)"
  unfolding dict_update_def
proof (induction new arbitrary: acc)
  case Nil
  show ?case by simp
next
  case (Cons kv new)
  show ?case
    by (auto simp: Cons.IH AList.update_conv' fun_eq_iff map_add_def split: option.splits)
qed

lemma distinct_dict_update:
  "distinct (keys acc) \<Longrightarrow> distinct (keys (dict_update acc new))"
  unfolding dict_update_def keys_def
  by (induction new arbitrary: acc) (simp_all add: AList.distinct_update)

lemma map_of_rev_distinct: "distinct (map fst xs) \<Longrightarrow> map_of (rev xs) = map_of xs"
  by (metis distinct_rev rev_map map_of_inject_set set_rev)

lemma dict_update_Nil: "dict_update acc [] = acc"
  by (simp add: dict_update_def)

lemma load_configs_distinct:
  "distinct (keys agg) \<Longrightarrow> load_configs fs files seen agg = Inr c \<Longrightarrow> distinct (keys c)"
proof (induction files arbitrary: seen agg)
  case Nil
  then show ?case by simp
next
  case (Cons f files)
  from Cons.prems(2) obtain cfg where "fs_parse fs f = Some cfg"
    and "load_configs fs files (seen @ [(f, keys cfg)]) (dict_update agg cfg) = Inr c"
    by (auto split: option.splits if_splits)
  with Cons.IH [of "dict_update agg cfg"] Cons.prems(1) show ?case
    by (simp add: distinct_dict_update)
qed

lemma load_directory_distinct:
  "load_directory fs d pats = Inr c \<Longrightarrow> distinct (keys c)"
  using load_configs_distinct [of "[]"]
  by (auto simp: load_directory_def keys_def split: sum.splits)

lemma load_directory_no_files:
  "lookup_config_filepaths fs d pats = Inr [] \<Longrightarrow> load_directory fs d pats = Inr []"
  by (simp add: load_directory_def)

lemma load_directory_nonempty:
  "load_directory fs d pats = Inr c \<Longrightarrow> c \<noteq> [] \<Longrightarrow>
   \<exists>files. lookup_config_filepaths fs d pats = Inr files \<and> files \<noteq> []"
  by (cases "lookup_config_filepaths fs d pats") (auto simp: load_directory_def)

lemma aggregate_Cons:
  "lookup_config_filepaths fs d pats = Inr files \<Longrightarrow> load_directory fs d pats = Inr c \<Longrightarrow>
   aggregate fs pats (d # rest) config processed
     = aggregate fs pats rest (dict_update config c) (processed @ files)"
  by (simp add: load_directory_def)

lemma aggregate_no_files:
  "no_files fs paths pats \<Longrightarrow> aggregate fs pats paths config processed = Inr (config, processed)"
  by (induction paths arbitrary: config processed) (simp_all add: no_files_def dict_update_Nil)

lemma discovery_no_files:
  "no_files fs paths pats \<Longrightarrow>
   get_config_from_patterns fs paths pats = Inl (MissingConfigException paths pats)"
  by (simp add: get_config_from_patterns_def aggregate_no_files)

lemma get_discovery:
  "\<not> fast_path self patterns \<Longrightarrow>
   get fs self patterns = get_config_from_patterns fs (conf_paths self) (map PyStr patterns)"
  by (auto simp: get_def fast_path_def split: option.splits)

section \<open>Failures of discovery\<close>
















section \<open>Properties of the instance\<close>






lemma conf_paths_scenario_loader:
  "conf_paths scenario_loader = [''/proj/conf/base'', ''/proj/conf/local'']"
  by code_simp

lemma conf_paths_empty_loader:
  "conf_paths empty_loader = [''/proj/conf/base'', ''/proj/conf/local'']"
  by code_simp

section \<open>The claims\<close>




text \<open>
  C2, as the code has it. For a call \<^verbatim>\<open>get(p)\<close> with exactly one pattern, if \<^verbatim>\<open>p\<close> is a
  key of the construction-time mapping and the value stored under it is not empty,
  \<^verbatim>\<open>get\<close> returns that value, whatever the filesystem holds.
\<close>

theorem fast_path_returns_cached:
  assumes "map_of (mapping self) p = Some v" and "v \<noteq> []"
  shows "get fs self [p] = Inr v"
  using assms by (simp add: get_def)

theorem fast_path_returns_cached_witness:
  "map_of (mapping scenario_loader) ''catalog''
     = Some [(''a'', PyInt 1), (''b'', PyInt 3), (''c'', PyInt 4)]
   \<and> get empty_fs scenario_loader [''catalog'']
     = Inr [(''a'', PyInt 1), (''b'', PyInt 3), (''c'', PyInt 4)]"
proof -
  have m: "map_of (mapping scenario_loader) ''catalog''
     = Some [(''a'', PyInt 1), (''b'', PyInt 3), (''c'', PyInt 4)]"
    by (simp add: scenario_loader_def)
  have n: "[(''a'', PyInt 1), (''b'', PyInt 3), (''c'', PyInt 4)] \<noteq> []"
    by simp
  from fast_path_returns_cached [OF m n, of empty_fs] m show ?thesis by simp
qed

text \<open>
  The wording of the spec fails when the stored value is empty: the instance built on
  the project without files has the key \<^verbatim>\<open>catalog\<close> with the empty mapping, and
  \<^verbatim>\<open>get("catalog")\<close> on it runs discovery, which reports missing configuration.
\<close>

theorem cached_empty_counterexample:
  "fst (ConfigLoader_init empty_fs ''/proj/conf'' PyNone PyNone PyNone PyNone None None
          ''base'' ''local'' []) = Inr empty_loader
   \<and> map_of (mapping empty_loader) ''catalog'' = Some []
   \<and> get empty_fs empty_loader [''catalog'']
       = Inl (MissingConfigException [''/proj/conf/base'', ''/proj/conf/local'']
                [PyStr ''catalog''])"
  by code_simp

text \<open>
  C3, as the code has it. For every call \<^verbatim>\<open>get(*patterns)\<close> that takes the discovery
  path, if no file matches any pattern in any resolved directory, \<^verbatim>\<open>get\<close> does not
  return an empty mapping: the missing-configuration error of discovery-and-merge,
  naming the directories and the patterns, reaches the caller, since \<^verbatim>\<open>get\<close> has no
  handler for it.
\<close>

theorem get_missing_propagates:
  assumes "\<not> fast_path self patterns"
    and "no_files fs (conf_paths self) (map PyStr patterns)"
  shows "get fs self patterns
           = Inl (MissingConfigException (conf_paths self) (map PyStr patterns))"
  using assms by (simp add: get_discovery discovery_no_files)

theorem get_missing_propagates_witness:
  "\<not> fast_path scenario_loader [''credentials*'', ''secrets*'']
   \<and> no_files scenario_fs (conf_paths scenario_loader) (map PyStr [''credentials*'', ''secrets*''])
   \<and> get scenario_fs scenario_loader [''credentials*'', ''secrets*'']
       = Inl (MissingConfigException [''/proj/conf/base'', ''/proj/conf/local'']
                [PyStr ''credentials*'', PyStr ''secrets*''])"
proof -
  have f: "\<not> fast_path scenario_loader [''credentials*'', ''secrets*'']"
    by (simp add: fast_path_def)
  have n: "no_files scenario_fs (conf_paths scenario_loader)
             (map PyStr [''credentials*'', ''secrets*''])"
    by code_simp
  from get_missing_propagates [OF f n] f n conf_paths_scenario_loader show ?thesis by simp
qed

text \<open>
  The wording of the spec fails here: on the project without files, \<^verbatim>\<open>get("catalog*")\<close>
  takes the discovery path, no file matches, and the result is the error, not the
  empty mapping.
\<close>

theorem get_empty_counterexample:
  "\<not> fast_path empty_loader [''catalog*'']
   \<and> no_files empty_fs (conf_paths empty_loader) [PyStr ''catalog*'']
   \<and> get empty_fs empty_loader [''catalog*'']
       = Inl (MissingConfigException [''/proj/conf/base'', ''/proj/conf/local'']
                [PyStr ''catalog*''])
   \<and> get empty_fs empty_loader [''catalog*''] \<noteq> Inr []"
  by code_simp

text \<open>
  C4. \<^verbatim>\<open>get_essential_config\<close> returns an empty mapping after emitting one warning
  exactly when discovery-and-merge raises the missing-configuration error. Every other
  error of discovery-and-merge (duplicate-key conflict, parse error) is returned to the
  caller unchanged and without a warning, and so is every mapping that discovery
  returns.
\<close>

theorem essential_downgrade:
  "((\<exists>w. get_essential_config fs self t v ws = (Inr [], ws @ [w]))
      \<longleftrightarrow> (\<exists>e. get_config_from_patterns fs (conf_paths self)
                   [py_or v (PyStr (t @ ''*'')), PyStr (t @ ''*/**''), PyStr (''**/'' @ t @ ''*'')]
                 = Inl e \<and> is_missing e))
   \<and> (\<forall>e. get_config_from_patterns fs (conf_paths self)
             [py_or v (PyStr (t @ ''*'')), PyStr (t @ ''*/**''), PyStr (''**/'' @ t @ ''*'')]
           = Inl e \<and> \<not> is_missing e
         \<longrightarrow> get_essential_config fs self t v ws = (Inl e, ws))
   \<and> (\<forall>c. get_config_from_patterns fs (conf_paths self)
             [py_or v (PyStr (t @ ''*'')), PyStr (t @ ''*/**''), PyStr (''**/'' @ t @ ''*'')]
           = Inr c
         \<longrightarrow> get_essential_config fs self t v ws = (Inr c, ws))"
  by (auto simp: get_essential_config_def split: sum.splits error.splits)

text \<open>
  Without files the credentials are empty, with a warning; a credentials file that does
  not parse ends \<^verbatim>\<open>get_essential_config("credentials")\<close> with its parse error; the
  catalog of the scenario is returned as discovery merged it.
\<close>

theorem essential_downgrade_witness:
  "get_essential_config empty_fs empty_loader ''credentials'' PyNone []
     = (Inr [], [] @ [ConfigNotFound (MissingConfigException
          [''/proj/conf/base'', ''/proj/conf/local'']
          [PyStr ''credentials*'', PyStr ''credentials*/**'', PyStr ''**/credentials*''])])
   \<and> is_missing (MissingConfigException [''/proj/conf/base'', ''/proj/conf/local'']
          [PyStr ''credentials*'', PyStr ''credentials*/**'', PyStr ''**/credentials*''])
   \<and> \<not> is_missing (ParseError ''/proj/conf/base/credentials.yml'')
   \<and> get_essential_config unparsable_fs empty_loader ''credentials'' PyNone []
     = (Inl (ParseError ''/proj/conf/base/credentials.yml''), [])
   \<and> get_essential_config scenario_fs empty_loader ''catalog'' PyNone []
     = (Inr [(''a'', PyInt 1), (''b'', PyInt 3), (''c'', PyInt 4)], [])"
proof -
  have b: "get_config_from_patterns unparsable_fs (conf_paths empty_loader)
      [py_or PyNone (PyStr (''credentials'' @ ''*'')), PyStr (''credentials'' @ ''*/**''),
       PyStr (''**/'' @ ''credentials'' @ ''*'')]
     = Inl (ParseError ''/proj/conf/base/credentials.yml'')"
    by code_simp
  have c: "get_config_from_patterns scenario_fs (conf_paths empty_loader)
      [py_or PyNone (PyStr (''catalog'' @ ''*'')), PyStr (''catalog'' @ ''*/**''),
       PyStr (''**/'' @ ''catalog'' @ ''*'')]
     = Inr [(''a'', PyInt 1), (''b'', PyInt 3), (''c'', PyInt 4)]"
    by code_simp
  have m: "is_missing (MissingConfigException [''/proj/conf/base'', ''/proj/conf/local'']
          [PyStr ''credentials*'', PyStr ''credentials*/**'', PyStr ''**/credentials*''])"
    and n: "\<not> is_missing (ParseError ''/proj/conf/base/credentials.yml'')"
    by simp_all
  have w: "get_essential_config empty_fs empty_loader ''credentials'' PyNone []
     = (Inr [], [] @ [ConfigNotFound (MissingConfigException
          [''/proj/conf/base'', ''/proj/conf/local'']
          [PyStr ''credentials*'', PyStr ''credentials*/**'', PyStr ''**/credentials*''])])"
    by code_simp
  have "get_essential_config unparsable_fs empty_loader ''credentials'' PyNone []
     = (Inl (ParseError ''/proj/conf/base/credentials.yml''), [])"
    using essential_downgrade [where fs = unparsable_fs and self = empty_loader and v = PyNone
        and t = "''credentials''" and ws = "[]"] b n
    by blast
  moreover have "get_essential_config scenario_fs empty_loader ''catalog'' PyNone []
     = (Inr [(''a'', PyInt 1), (''b'', PyInt 3), (''c'', PyInt 4)], [])"
    using essential_downgrade [where fs = scenario_fs and self = empty_loader and v = PyNone
        and t = "''catalog''" and ws = "[]"] c
    by blast
  ultimately show ?thesis using w m n by blast
qed

text \<open>
  C5. The effective run environment is \<^verbatim>\<open>env\<close> when it is given and not empty, and
  \<^verbatim>\<open>default_run_env\<close> otherwise. \<^verbatim>\<open>conf_paths\<close> is the list of the base path
  \<^verbatim>\<open>conf_source/base_env\<close> and the run path \<^verbatim>\<open>conf_source/run_env\<close> with duplicates
  removed, the first occurrence kept: the base path alone when the two paths are equal,
  both in this order otherwise. It has no duplicate, the base path is always first, and
  when the run environment equals the base environment it has exactly one element.
\<close>

theorem conf_paths_resolution:
  "run_env self = (if env self = None \<or> env self = Some [] then default_run_env self
                   else the (env self))
   \<and> conf_paths self = remove_duplicates
       [path_str (truediv (parse_parts (conf_source self)) (base_env self)),
        path_str (truediv (parse_parts (conf_source self)) (run_env self))]
   \<and> conf_paths self =
       (if path_str (truediv (parse_parts (conf_source self)) (run_env self))
           = path_str (truediv (parse_parts (conf_source self)) (base_env self))
        then [path_str (truediv (parse_parts (conf_source self)) (base_env self))]
        else [path_str (truediv (parse_parts (conf_source self)) (base_env self)),
              path_str (truediv (parse_parts (conf_source self)) (run_env self))])
   \<and> distinct (conf_paths self)
   \<and> hd (conf_paths self) = path_str (truediv (parse_parts (conf_source self)) (base_env self))
   \<and> (run_env self = base_env self \<longrightarrow>
        conf_paths self = [path_str (truediv (parse_parts (conf_source self)) (base_env self))]
        \<and> length (conf_paths self) = 1)"
  by (auto simp: conf_paths_def build_conf_paths_def remove_duplicates_pair run_env_def
        split: option.splits)

theorem conf_paths_resolution_witness:
  "run_env base_only_loader = base_env base_only_loader
   \<and> conf_paths base_only_loader = [''/proj/conf/base'']"
proof -
  have r: "run_env base_only_loader = base_env base_only_loader"
    by (simp add: run_env_def base_only_loader_def empty_loader_def)
  have b: "path_str (truediv (parse_parts (conf_source base_only_loader))
             (base_env base_only_loader)) = ''/proj/conf/base''"
    by code_simp
  have c: "conf_paths base_only_loader =
      [path_str (truediv (parse_parts (conf_source base_only_loader))
         (base_env base_only_loader))]"
    using conf_paths_resolution [of base_only_loader] r by blast
  show ?thesis using r by (simp only: c b)
qed

text \<open>
  C6. For every section name \<^verbatim>\<open>t\<close>, \<^verbatim>\<open>get_essential_config(t)\<close> called without
  provided patterns runs discovery-and-merge with exactly the three patterns \<^verbatim>\<open>t*\<close>,
  \<^verbatim>\<open>t*/**\<close> and \<^verbatim>\<open>**/t*\<close>, in this order, over the resolved directories.
\<close>

theorem essential_default_patterns:
  "get_essential_config fs self t PyNone ws =
     (case get_config_from_patterns fs (conf_paths self)
             [PyStr (t @ ''*''), PyStr (t @ ''*/**''), PyStr (''**/'' @ t @ ''*'')] of
        Inl e \<Rightarrow> if is_missing e then (Inr [], ws @ [ConfigNotFound e]) else (Inl e, ws)
      | Inr c \<Rightarrow> (Inr c, ws))"
  by (simp add: get_essential_config_def py_or_def split: sum.splits error.splits)

theorem essential_default_patterns_witness:
  "get_essential_config scenario_fs empty_loader ''catalog'' PyNone []
     = (Inr [(''a'', PyInt 1), (''b'', PyInt 3), (''c'', PyInt 4)], [])
   \<and> get_config_from_patterns scenario_fs (conf_paths empty_loader)
        [PyStr ''catalog*'', PyStr ''catalog*/**'', PyStr ''**/catalog*'']
     = Inr [(''a'', PyInt 1), (''b'', PyInt 3), (''c'', PyInt 4)]"
proof -
  have c: "get_config_from_patterns scenario_fs (conf_paths empty_loader)
        [PyStr (''catalog'' @ ''*''), PyStr (''catalog'' @ ''*/**''),
         PyStr (''**/'' @ ''catalog'' @ ''*'')]
     = Inr [(''a'', PyInt 1), (''b'', PyInt 3), (''c'', PyInt 4)]"
    by code_simp
  from essential_default_patterns [of scenario_fs empty_loader "''catalog''" "[]"] c
  show ?thesis by simp
qed

text \<open>
  C7. When the resolution order is the two directories A, then B, and \<^verbatim>\<open>get\<close> takes the
  discovery path, a key that the merged configs of both directories define is mapped
  by the result of \<^verbatim>\<open>get\<close> to the value of B; the whole result is the mapping of A
  overlaid with the mapping of B, top-level key by top-level key.
\<close>

theorem later_directory_wins:
  assumes "conf_paths self = [A, B]"
    and "\<not> fast_path self patterns"
    and "load_directory fs A (map PyStr patterns) = Inr cA"
    and "load_directory fs B (map PyStr patterns) = Inr cB"
    and "map_of cA k = Some u" and "map_of cB k = Some v"
  shows "\<exists>cfg. get fs self patterns = Inr cfg \<and> map_of cfg k = Some v
             \<and> map_of cfg = map_of cA ++ map_of cB"
proof -
  let ?pats = "map PyStr patterns"
  let ?cfg = "dict_update (dict_update [] cA) cB"
  from assms(6) have "cB \<noteq> []" by auto
  with assms(4) obtain filesB where lb: "lookup_config_filepaths fs B ?pats = Inr filesB"
    and nb: "filesB \<noteq> []"
    using load_directory_nonempty by blast
  from assms(5) have "cA \<noteq> []" by auto
  with assms(3) obtain filesA where la: "lookup_config_filepaths fs A ?pats = Inr filesA"
    using load_directory_nonempty by blast
  have "aggregate fs ?pats [A, B] [] []
      = aggregate fs ?pats [B] (dict_update [] cA) ([] @ filesA)"
    by (rule aggregate_Cons [OF la assms(3)])
  also have "\<dots> = aggregate fs ?pats [] ?cfg (([] @ filesA) @ filesB)"
    by (rule aggregate_Cons [OF lb assms(4)])
  finally have "aggregate fs ?pats [A, B] [] [] = Inr (?cfg, ([] @ filesA) @ filesB)"
    by simp
  with nb have "get_config_from_patterns fs [A, B] ?pats = Inr ?cfg"
    by (simp add: get_config_from_patterns_def)
  with assms(1,2) have g: "get fs self patterns = Inr ?cfg"
    by (simp add: get_discovery)
  have "map_of (rev cA) = map_of cA" "map_of (rev cB) = map_of cB"
    using assms(3,4) load_directory_distinct map_of_rev_distinct unfolding keys_def by blast+
  then have m: "map_of ?cfg = map_of cA ++ map_of cB"
    by (simp add: map_of_dict_update)
  with assms(6) have "map_of ?cfg k = Some v" by simp
  with g m show ?thesis by blast
qed

text \<open>
  The scenario: the base catalog is \<^verbatim>\<open>{a: 1, b: 2}\<close>, the local one \<^verbatim>\<open>{b: 3, c: 4}\<close>,
  and \<^verbatim>\<open>get("catalog*")\<close> returns \<^verbatim>\<open>{a: 1, b: 3, c: 4}\<close>.
\<close>

theorem later_directory_wins_witness:
  "get scenario_fs scenario_loader [''catalog*'']
     = Inr [(''a'', PyInt 1), (''b'', PyInt 3), (''c'', PyInt 4)]
   \<and> load_directory scenario_fs ''/proj/conf/base'' [PyStr ''catalog*'']
     = Inr [(''a'', PyInt 1), (''b'', PyInt 2)]
   \<and> load_directory scenario_fs ''/proj/conf/local'' [PyStr ''catalog*'']
     = Inr [(''b'', PyInt 3), (''c'', PyInt 4)]
   \<and> map_of [(''a'', PyInt 1), (''b'', PyInt 3), (''c'', PyInt 4)] ''b'' = Some (PyInt 3)"
proof -
  have f: "\<not> fast_path scenario_loader [''catalog*'']"
    by (simp add: fast_path_def scenario_loader_def)
  have a: "load_directory scenario_fs ''/proj/conf/base'' (map PyStr [''catalog*''])
             = Inr [(''a'', PyInt 1), (''b'', PyInt 2)]"
    by code_simp
  have b: "load_directory scenario_fs ''/proj/conf/local'' (map PyStr [''catalog*''])
             = Inr [(''b'', PyInt 3), (''c'', PyInt 4)]"
    by code_simp
  have ka: "map_of [(''a'', PyInt 1), (''b'', PyInt 2)] ''b'' = Some (PyInt 2)"
    by simp
  have kb: "map_of [(''b'', PyInt 3), (''c'', PyInt 4)] ''b'' = Some (PyInt 3)"
    by simp
  have g: "get scenario_fs scenario_loader [''catalog*'']
             = Inr [(''a'', PyInt 1), (''b'', PyInt 3), (''c'', PyInt 4)]"
    by code_simp
  from later_directory_wins [OF conf_paths_scenario_loader f a b ka kb] g
  have "map_of [(''a'', PyInt 1), (''b'', PyInt 3), (''c'', PyInt 4)] ''b'' = Some (PyInt 3)"
    by auto
  with g a b show ?thesis by simp
qed






text \<open>
  C10. For a call \<^verbatim>\<open>get(p)\<close> with exactly one pattern, if \<^verbatim>\<open>p\<close> is a key of the
  construction-time mapping and the value stored under it is the empty mapping, \<^verbatim>\<open>get\<close>
  does not return that value: its result is the result of discovery-and-merge with
  \<^verbatim>\<open>p\<close> as the only pattern, which is the missing-configuration error when no file
  matches.
\<close>

theorem cached_empty_falls_through:
  assumes "map_of (mapping self) p = Some []"
  shows "get fs self [p] = get_config_from_patterns fs (conf_paths self) [PyStr p]
       \<and> (no_files fs (conf_paths self) [PyStr p] \<longrightarrow>
            get fs self [p] = Inl (MissingConfigException (conf_paths self) [PyStr p]))"
  using assms by (simp add: get_def discovery_no_files)

theorem cached_empty_falls_through_witness:
  "map_of (mapping empty_loader) ''logging'' = Some []
   \<and> no_files empty_fs (conf_paths empty_loader) [PyStr ''logging'']
   \<and> get empty_fs empty_loader [''logging'']
       = Inl (MissingConfigException [''/proj/conf/base'', ''/proj/conf/local'']
                [PyStr ''logging''])"
proof -
  have m: "map_of (mapping empty_loader) ''logging'' = Some []"
    by (simp add: empty_loader_def)
  have n: "no_files empty_fs (conf_paths empty_loader) [PyStr ''logging'']"
    by code_simp
  from cached_empty_falls_through [OF m, of empty_fs] m n conf_paths_empty_loader
  show ?thesis by auto
qed

end
